theory Spec2Isabelle
  imports Complex_Main "HOL-Library.Word"
begin

unbundle bit_operations_syntax

section \<open>Binary codec: data model\<close>

text \<open>
  A byte of the data buffer. The buffer of a \<open>BinaryDataHolder\<close>
  (\<open>std::unique_ptr< unsigned char[] >\<close>) is the list of its bytes; a null pointer is the
  empty list. Sizes and offsets (\<open>std::size_t\<close>) are natural numbers: a buffer never
  reaches the 64-bit limit, so their arithmetic does not wrap.
\<close>

type_synonym byte = "8 word"

text \<open>\<open>ElementHeader::ElementType\<close>, in the order of the enum (tags 0 to 7); the
  constructors carry a \<open>T\<close> because \<open>Int\<close> is taken in HOL.\<close>

datatype ElementType = IntT | UIntT | FloatT | BoolT | StringT | ObjectT | ArrayT | NullT

fun type_tag :: "ElementType \<Rightarrow> nat" where
  "type_tag IntT = 0"
| "type_tag UIntT = 1"
| "type_tag FloatT = 2"
| "type_tag BoolT = 3"
| "type_tag StringT = 4"
| "type_tag ObjectT = 5"
| "type_tag ArrayT = 6"
| "type_tag NullT = 7"

definition tag_type :: "nat \<Rightarrow> ElementType" where
  "tag_type n =
     (if n = 0 then IntT else if n = 1 then UIntT else if n = 2 then FloatT
      else if n = 3 then BoolT else if n = 4 then StringT else if n = 5 then ObjectT
      else if n = 6 then ArrayT else NullT)"

text \<open>
  \<open>ElementHeader\<close>: six packed bytes. Bits 0..2 of the first 16-bit unit hold the type,
  bits 3..15 the name index, and the next four bytes the size of the body
  (native little-endian).
\<close>

record ElementHeader =
  m_type :: ElementType
  m_name :: nat
  m_size :: nat

definition sizeof_ElementHeader :: nat where
  "sizeof_ElementHeader = 6"

definition sizeof_ArrayHeader :: nat where
  "sizeof_ArrayHeader = 4"

definition max_name_idx :: nat where
  "max_name_idx = 8191"

definition max_element_num :: nat where
  "max_element_num = 536870911"

text \<open>The byte with a given value (the low eight bits of the number).\<close>

definition byte_of :: "nat \<Rightarrow> byte" where
  "byte_of n = of_nat n"

text \<open>A 32-bit value as its four bytes in memory, and back (\<open>memcpy\<close> of an \<open>unsigned\<close>).\<close>

definition u32_bytes :: "nat \<Rightarrow> byte list" where
  "u32_bytes n =
     [byte_of (n mod 256), byte_of (n div 256 mod 256),
      byte_of (n div 65536 mod 256), byte_of (n div 16777216 mod 256)]"

definition bytes_u32 :: "byte list \<Rightarrow> nat" where
  "bytes_u32 bs =
     unat (bs ! 0) + 256 * unat (bs ! 1) + 65536 * unat (bs ! 2) + 16777216 * unat (bs ! 3)"

text \<open>The bytes of a header: the bit-fields are stored with their width, so an
  over-wide name index or size is truncated as the C++ assignment truncates it.\<close>

definition header_bytes :: "ElementHeader \<Rightarrow> byte list" where
  "header_bytes h =
     [byte_of (type_tag (m_type h) + 8 * (m_name h mod 32)),
      byte_of (m_name h div 32 mod 256)] @ u32_bytes (m_size h)"

definition bytes_header :: "byte list \<Rightarrow> ElementHeader" where
  "bytes_header bs =
     \<lparr> m_type = tag_type (unat (bs ! 0) mod 8),
       m_name = unat (bs ! 0) div 8 + 32 * unat (bs ! 1),
       m_size = bytes_u32 (drop 2 bs) \<rparr>"

text \<open>\<open>ArrayHeader\<close>: four packed bytes, bits 0..2 the inner type, bits 3..31 the count.\<close>

record ArrayHeader =
  m_inner_type :: ElementType
  m_element_num :: nat

definition array_header_bytes :: "ArrayHeader \<Rightarrow> byte list" where
  "array_header_bytes a =
     u32_bytes (type_tag (m_inner_type a) + 8 * (m_element_num a mod 536870912))"


text \<open>
  What can go wrong: a \<open>SERIALIZER_ASSERT\<close> that fails, and a read or a write outside the
  buffer or the string table, where the C++ has undefined behaviour.
\<close>

datatype error = AssertionFailed | OutOfBounds

text \<open>\<open>BinaryDataHolder\<close>: the string table, the buffer, its capacity and its used prefix.\<close>

record BinaryDataHolder =
  m_strings :: "string list"
  m_data :: "byte list"
  m_data_size :: nat
  m_used_size :: nat

definition empty_holder :: BinaryDataHolder where
  "empty_holder = \<lparr> m_strings = [], m_data = [], m_data_size = 0, m_used_size = 0 \<rparr>"

section \<open>Binary codec: buffer growth and appends\<close>

definition c_writer_initial_size :: nat where
  "c_writer_initial_size = 4098"

definition c_writer_growth_factor :: nat where
  "c_writer_growth_factor = 2"

text \<open>
  The \<open>do ... while\<close> loop of \<open>grow\<close>: the capacity is multiplied by the growth factor (or
  set to the initial size when it is zero) until it reaches \<open>bound\<close>, which is
  \<open>used_size + needed_size\<close> in the source.
\<close>

function grow_size :: "nat \<Rightarrow> nat \<Rightarrow> nat" where
  "grow_size new_data_size bound =
     (let n = (if new_data_size > 0 then new_data_size * c_writer_growth_factor
               else c_writer_initial_size)
      in if n < bound then grow_size n bound else n)"
  by pat_completeness auto
termination
  by (relation "measure (\<lambda>(n, bound). bound - n)")
     (auto simp: c_writer_growth_factor_def c_writer_initial_size_def)

declare grow_size.simps [simp del]

text \<open>
  \<open>grow\<close>: a fresh zero-filled buffer of the new capacity (\<open>std::make_unique\<close>
  value-initialises), into which the used prefix of the old one is copied.
\<close>

definition grow :: "BinaryDataHolder \<Rightarrow> nat \<Rightarrow> BinaryDataHolder" where
  "grow h needed_size =
     (let new_data_size = grow_size (m_data_size h) (m_used_size h + needed_size);
          new_data = take (m_used_size h) (m_data h)
                     @ replicate (new_data_size - m_used_size h) 0
      in h\<lparr> m_data := new_data, m_data_size := new_data_size \<rparr>)"

definition reserve_bytes :: "BinaryDataHolder \<Rightarrow> nat \<Rightarrow> BinaryDataHolder \<times> nat" where
  "reserve_bytes h to_reserve =
     (let h1 = (if m_used_size h + to_reserve > m_data_size h
                then grow h (m_used_size h + to_reserve) else h);
          reserved_memory_start = m_used_size h1
      in (h1\<lparr> m_used_size := m_used_size h1 + to_reserve \<rparr>, reserved_memory_start))"

text \<open>\<open>memcpy\<close> of \<open>bs\<close> to offset \<open>off\<close> of a buffer; every caller has made room before.
  The source's \<open>write\<close> is \<open>write_bytes\<close> here (\<open>write\<close> is an Isabelle keyword).\<close>

definition store :: "byte list \<Rightarrow> nat \<Rightarrow> byte list \<Rightarrow> byte list" where
  "store mem off bs = take off mem @ bs @ drop (off + length bs) mem"

definition write_bytes :: "BinaryDataHolder \<Rightarrow> byte list \<Rightarrow> BinaryDataHolder" where
  "write_bytes h to_write =
     (let h1 = (if m_used_size h + length to_write > m_data_size h
                then grow h (m_used_size h + length to_write) else h)
      in h1\<lparr> m_data := store (m_data h1) (m_used_size h1) to_write,
              m_used_size := m_used_size h1 + length to_write \<rparr>)"

section \<open>Binary codec: string interning\<close>

text \<open>\<open>std::find\<close> followed by \<open>std::distance\<close>: the index of the first equal string.\<close>

fun find_index_of :: "'a \<Rightarrow> 'a list \<Rightarrow> nat option" where
  "find_index_of x [] = None"
| "find_index_of x (y # ys) =
     (if y = x then Some 0 else map_option Suc (find_index_of x ys))"

definition map_string_to_integer :: "string list \<Rightarrow> string \<Rightarrow> error + (nat \<times> string list)" where
  "map_string_to_integer strings str =
     (case find_index_of str strings of
        Some idx \<Rightarrow> Inr (idx, strings)
      | None \<Rightarrow>
          (let idx = length strings
           in if idx \<le> max_name_idx then Inr (idx, strings @ [str])
              else Inl AssertionFailed))"

text \<open>The strings interned in a container one after the other, with the index each call returns.\<close>

fun intern_all :: "string list \<Rightarrow> string list \<Rightarrow> error + (nat list \<times> string list)" where
  "intern_all strings [] = Inr ([], strings)"
| "intern_all strings (s # ss) =
     (case map_string_to_integer strings s of
        Inl e \<Rightarrow> Inl e
      | Inr (idx, strings1) \<Rightarrow>
          (case intern_all strings1 ss of
             Inl e \<Rightarrow> Inl e
           | Inr (idxs, strings2) \<Rightarrow> Inr (idx # idxs, strings2)))"


section \<open>Binary codec: walking the elements of a scope\<close>

text \<open>
  The header at offset \<open>off\<close> of the buffer (\<open>reinterpret_cast< ElementHeader* >\<close>), and
  the place of the next element.
\<close>

definition header_at :: "byte list \<Rightarrow> nat \<Rightarrow> ElementHeader" where
  "header_at mem off = bytes_header (take sizeof_ElementHeader (drop off mem))"

text \<open>
  \<open>nullify_elements_with_name\<close>: every header of the range \<open>[data_it, data_end)\<close> whose
  name index is \<open>name_idx\<close> gets the type \<open>Null\<close>; the other bits of the header stay.
  A header that does not lie inside the buffer is a read out of bounds.
\<close>

function nullify_loop :: "nat \<Rightarrow> byte list \<Rightarrow> nat \<Rightarrow> nat \<Rightarrow> error + byte list" where
  "nullify_loop name_idx mem data_it data_end =
     (if data_it < data_end then
        (if length mem < data_it + sizeof_ElementHeader then Inl OutOfBounds
         else
           (let element = header_at mem data_it;
                mem1 = (if m_name element = name_idx
                        then store mem data_it (header_bytes (element\<lparr> m_type := NullT \<rparr>))
                        else mem)
            in nullify_loop name_idx mem1
                 (data_it + sizeof_ElementHeader + m_size element) data_end))
      else Inr mem)"
  by pat_completeness auto
termination
  by (relation "measure (\<lambda>(name_idx, mem, data_it, data_end). data_end - data_it)")
     (auto simp: sizeof_ElementHeader_def)

declare nullify_loop.simps [simp del]

definition nullify_elements_with_name ::
  "nat \<Rightarrow> byte list \<Rightarrow> nat \<Rightarrow> nat \<Rightarrow> error + byte list" where
  "nullify_elements_with_name name_idx mem data data_size =
     nullify_loop name_idx mem data (data + data_size)"

text \<open>
  The copies of \<open>remove_null_elements\<close>. \<open>memcpy\<close> for ranges that do not overlap; for
  ranges that do, a loop over 8-byte words (\<open>vectorized_t\<close>) followed by a loop over single
  bytes that starts at \<open>size_to_copy - last_written_byte\<close>, as the source has it.
\<close>

function copy_words :: "byte list \<Rightarrow> nat \<Rightarrow> nat \<Rightarrow> nat \<Rightarrow> nat \<Rightarrow> byte list" where
  "copy_words mem dest src i vector_size =
     (if i < vector_size
      then copy_words (store mem (dest + 8 * i) (take 8 (drop (src + 8 * i) mem)))
             dest src (i + 1) vector_size
      else mem)"
  by pat_completeness auto
termination
  by (relation "measure (\<lambda>(mem, dest, src, i, vector_size). vector_size - i)") auto

declare copy_words.simps [simp del]

function copy_last_bytes :: "byte list \<Rightarrow> nat \<Rightarrow> nat \<Rightarrow> nat \<Rightarrow> nat \<Rightarrow> byte list" where
  "copy_last_bytes mem dest src i size_to_copy =
     (if i < size_to_copy
      then copy_last_bytes (mem[dest + i := mem ! (src + i)]) dest src (i + 1) size_to_copy
      else mem)"
  by pat_completeness auto
termination
  by (relation "measure (\<lambda>(mem, dest, src, i, size_to_copy). size_to_copy - i)") auto

declare copy_last_bytes.simps [simp del]

definition copy_element :: "byte list \<Rightarrow> nat \<Rightarrow> nat \<Rightarrow> nat \<Rightarrow> byte list" where
  "copy_element mem proper_data sub_element_it size_to_copy =
     (if proper_data + size_to_copy \<le> sub_element_it
      then store mem proper_data (take size_to_copy (drop sub_element_it mem))
      else
        (let vector_size = size_to_copy div 8;
             mem1 = copy_words mem proper_data sub_element_it 0 vector_size;
             last_written_byte = vector_size * 8
         in copy_last_bytes mem1 proper_data sub_element_it
              (size_to_copy - last_written_byte) size_to_copy))"

text \<open>
  The loop of \<open>remove_null_elements\<close> over \<open>[sub_element_it, sub_element_end)\<close>;
  \<open>final_data_size\<close> is an \<open>unsigned\<close>, so its subtraction wraps at 32 bits.
\<close>

function remove_null_loop ::
  "byte list \<Rightarrow> nat \<Rightarrow> nat \<Rightarrow> nat \<Rightarrow> nat \<Rightarrow> error + (byte list \<times> nat)" where
  "remove_null_loop mem sub_element_it proper_data sub_element_end final_data_size =
     (if sub_element_it < sub_element_end then
        (if length mem < sub_element_it + sizeof_ElementHeader then Inl OutOfBounds
         else
           (let sub_element_header = header_at mem sub_element_it;
                next_element_it = sub_element_it + sizeof_ElementHeader
                                  + m_size sub_element_header
            in if m_type sub_element_header = NullT then
                 remove_null_loop mem next_element_it proper_data sub_element_end
                   (nat ((int final_data_size
                          - int (sizeof_ElementHeader + m_size sub_element_header))
                         mod 4294967296))
               else if proper_data = sub_element_it then
                 remove_null_loop mem next_element_it next_element_it sub_element_end
                   final_data_size
               else
                 (let size_to_copy = sizeof_ElementHeader + m_size sub_element_header
                  in if length mem < sub_element_it + size_to_copy then Inl OutOfBounds
                     else remove_null_loop
                            (copy_element mem proper_data sub_element_it size_to_copy)
                            (sub_element_it + size_to_copy) (proper_data + size_to_copy)
                            sub_element_end final_data_size)))
      else Inr (mem, final_data_size))"
  by pat_completeness auto
termination
  by (relation "measure (\<lambda>(mem, sub_element_it, proper_data, sub_element_end, f).
                  sub_element_end - sub_element_it)")
     (auto simp: sizeof_ElementHeader_def)

declare remove_null_loop.simps [simp del]

definition remove_null_elements :: "byte list \<Rightarrow> nat \<Rightarrow> nat \<Rightarrow> error + (byte list \<times> nat)" where
  "remove_null_elements mem data data_size =
     (case remove_null_loop mem data data (data + data_size) data_size of
        Inl e \<Rightarrow> Inl e
      | Inr (mem1, final_data_size) \<Rightarrow>
          if final_data_size \<le> data_size then Inr (mem1, final_data_size)
          else Inl AssertionFailed)"

text \<open>
  What null-compaction is meant to produce: the elements of the range whose type is not
  \<open>Null\<close>, each with its bytes as they are, in their order.
\<close>

function non_null_elements :: "byte list \<Rightarrow> nat \<Rightarrow> nat \<Rightarrow> byte list" where
  "non_null_elements mem data_it data_end =
     (if data_it < data_end then
        (let element = header_at mem data_it;
             total = sizeof_ElementHeader + m_size element
         in (if m_type element = NullT then [] else take total (drop data_it mem))
            @ non_null_elements mem (data_it + total) data_end)
      else [])"
  by pat_completeness auto
termination
  by (relation "measure (\<lambda>(mem, data_it, data_end). data_end - data_it)")
     (auto simp: sizeof_ElementHeader_def)

declare non_null_elements.simps [simp del]

section \<open>Names\<close>

text \<open>
  A \<open>SerializerString\<close> is given by its \<open>m_length\<close> bytes; the pointer it holds is that of
  a C string, so a zero byte follows them. \<open>operator==\<close> compares the lengths and then
  calls \<open>strcmp\<close>, which reads each side up to its first zero byte (\<open>c_str\<close>).
\<close>

definition c_str :: "string \<Rightarrow> string" where
  "c_str s = takeWhile (\<lambda>c. c \<noteq> CHR 0x00) s"

definition ss_eq :: "string \<Rightarrow> string \<Rightarrow> bool" where
  "ss_eq lhs rhs = (length lhs = length rhs \<and> c_str lhs = c_str rhs)"

section \<open>Binary writer\<close>

text \<open>
  A \<open>BinaryWriter\<close> holds references to the four fields of the container and its own
  constant \<open>m_first_element_header_start\<close>. An operation of the writer therefore takes
  that offset (\<open>first\<close>) and the container, after its own arguments, and returns the
  container as it leaves it. A callback that receives a sub-writer is a function of the
  same kind; the callback of an object array also takes the index of the entry.
\<close>

type_synonym SerializeObjFn = "nat \<Rightarrow> BinaryDataHolder \<Rightarrow> error + BinaryDataHolder"

type_synonym SerializeObjArrayFn = "nat \<Rightarrow> SerializeObjFn"

text \<open>The destructor: null-compaction of the range the writer owns.\<close>

definition BinaryWriter_dtor :: "nat \<Rightarrow> BinaryDataHolder \<Rightarrow> error + BinaryDataHolder" where
  "BinaryWriter_dtor first h =
     (let prev_size = (m_used_size h - first) mod 4294967296
      in case remove_null_elements (m_data h) first prev_size of
           Inl e \<Rightarrow> Inl e
         | Inr (mem, new_size) \<Rightarrow>
             Inr (h\<lparr> m_data := mem, m_used_size := m_used_size h - (prev_size - new_size) \<rparr>))"

function has_member_loop ::
  "string list \<Rightarrow> byte list \<Rightarrow> string \<Rightarrow> nat \<Rightarrow> nat \<Rightarrow> error + bool" where
  "has_member_loop strings mem name data_it data_end =
     (if data_it < data_end then
        (if length mem < data_it + sizeof_ElementHeader then Inl OutOfBounds
         else
           (let element = header_at mem data_it;
                next_it = data_it + sizeof_ElementHeader + m_size element
            in if m_type element \<noteq> NullT then
                 (if length strings \<le> m_name element then Inl OutOfBounds
                  else if ss_eq name (strings ! m_name element) then Inr True
                  else has_member_loop strings mem name next_it data_end)
               else has_member_loop strings mem name next_it data_end))
      else Inr False)"
  by pat_completeness auto
termination
  by (relation "measure (\<lambda>(strings, mem, name, data_it, data_end). data_end - data_it)")
     (auto simp: sizeof_ElementHeader_def)

declare has_member_loop.simps [simp del]

definition BinaryWriter_has_member :: "string \<Rightarrow> nat \<Rightarrow> BinaryDataHolder \<Rightarrow> error + bool" where
  "BinaryWriter_has_member name first h =
     has_member_loop (m_strings h) (m_data h) name first (m_used_size h)"

text \<open>
  The common start of the scalar writes: the name is interned, its index is narrowed to an
  \<open>unsigned short\<close>, and the elements of the scope that carry it are nullified.
\<close>

definition intern_and_nullify ::
  "string \<Rightarrow> nat \<Rightarrow> BinaryDataHolder \<Rightarrow> error + (nat \<times> BinaryDataHolder)" where
  "intern_and_nullify name first h =
     (case map_string_to_integer (m_strings h) name of
        Inl e \<Rightarrow> Inl e
      | Inr (idx, strings) \<Rightarrow>
          (let name_idx = idx mod 65536
           in case nullify_elements_with_name name_idx (m_data h) first
                     (m_used_size h - first) of
                Inl e \<Rightarrow> Inl e
              | Inr mem \<Rightarrow> Inr (name_idx, h\<lparr> m_strings := strings, m_data := mem \<rparr>)))"

text \<open>\<open>write_element\<close> for a four-byte value \<open>var\<close> (\<open>int\<close>, \<open>unsigned\<close>, \<open>float\<close>).\<close>

definition write_element :: "nat \<Rightarrow> BinaryDataHolder \<Rightarrow> ElementType \<Rightarrow> nat \<Rightarrow> BinaryDataHolder" where
  "write_element name_idx h type var =
     (let header = \<lparr> m_type = type, m_name = name_idx, m_size = 4 \<rparr>
      in write_bytes (write_bytes h (header_bytes header)) (u32_bytes var))"

definition serialize_int :: "string \<Rightarrow> 32 word \<Rightarrow> SerializeObjFn" where
  "serialize_int name var first h =
     (case intern_and_nullify name first h of
        Inl e \<Rightarrow> Inl e
      | Inr (name_idx, h1) \<Rightarrow> Inr (write_element name_idx h1 IntT (unat var)))"

definition serialize_uint :: "string \<Rightarrow> 32 word \<Rightarrow> SerializeObjFn" where
  "serialize_uint name var first h =
     (case intern_and_nullify name first h of
        Inl e \<Rightarrow> Inl e
      | Inr (name_idx, h1) \<Rightarrow> Inr (write_element name_idx h1 UIntT (unat var)))"

text \<open>A \<open>float\<close> is its 32 bits: the codec only copies them.\<close>

definition serialize_float :: "string \<Rightarrow> 32 word \<Rightarrow> SerializeObjFn" where
  "serialize_float name var first h =
     (case intern_and_nullify name first h of
        Inl e \<Rightarrow> Inl e
      | Inr (name_idx, h1) \<Rightarrow> Inr (write_element name_idx h1 FloatT (unat var)))"

definition serialize_bool :: "string \<Rightarrow> bool \<Rightarrow> SerializeObjFn" where
  "serialize_bool name var first h =
     (case intern_and_nullify name first h of
        Inl e \<Rightarrow> Inl e
      | Inr (name_idx, h1) \<Rightarrow>
          (let c = (if var then 1 else 0) :: byte;
               header = \<lparr> m_type = BoolT, m_name = name_idx, m_size = 1 \<rparr>
           in Inr (write_bytes (write_bytes h1 (header_bytes header)) [c])))"

text \<open>The string value is interned before the name.\<close>

definition serialize_string :: "string \<Rightarrow> string \<Rightarrow> SerializeObjFn" where
  "serialize_string name str first h =
     (case map_string_to_integer (m_strings h) str of
        Inl e \<Rightarrow> Inl e
      | Inr (idx, strings) \<Rightarrow>
          (case intern_and_nullify name first (h\<lparr> m_strings := strings \<rparr>) of
             Inl e \<Rightarrow> Inl e
           | Inr (name_idx, h1) \<Rightarrow>
               Inr (write_element name_idx h1 StringT (idx mod 4294967296))))"

text \<open>
  \<open>serialize( name, user_data, fn )\<close>: the nested object. The sub-writer starts after the
  reserved header; it is destroyed when the callback returns; the header is filled in, or
  the reservation is dropped when nothing was written.
\<close>

definition serialize_object :: "string \<Rightarrow> SerializeObjFn \<Rightarrow> SerializeObjFn" where
  "serialize_object name fn first h =
     (let (h1, element_header_start) = reserve_bytes h sizeof_ElementHeader;
          sub_first = m_used_size h1
      in case fn sub_first h1 of
           Inl e \<Rightarrow> Inl e
         | Inr h2 \<Rightarrow>
             (case BinaryWriter_dtor sub_first h2 of
                Inl e \<Rightarrow> Inl e
              | Inr h3 \<Rightarrow>
                  if m_used_size h3 = element_header_start + sizeof_ElementHeader
                  then Inr (h3\<lparr> m_used_size := element_header_start \<rparr>)
                  else
                    (case map_string_to_integer (m_strings h3) name of
                       Inl e \<Rightarrow> Inl e
                     | Inr (idx, strings) \<Rightarrow>
                         (let header = \<lparr> m_type = ObjectT, m_name = idx,
                                         m_size = m_used_size h3 - element_header_start
                                                  - sizeof_ElementHeader \<rparr>
                          in Inr (h3\<lparr> m_strings := strings,
                                      m_data := store (m_data h3) element_header_start
                                                  (header_bytes header) \<rparr>)))))"

text \<open>The entries of \<open>write_object_array\<close>: the loop over \<open>i < element_num\<close>.\<close>

function write_object_entries :: "SerializeObjArrayFn \<Rightarrow> nat \<Rightarrow> nat \<Rightarrow> BinaryDataHolder \<Rightarrow> error + BinaryDataHolder" where
  "write_object_entries fn i element_num h =
     (if i < element_num then
        (let (h1, object_size_start) = reserve_bytes h 4;
             sub_first = m_used_size h1
         in case fn i sub_first h1 of
              Inl e \<Rightarrow> Inl e
            | Inr h2 \<Rightarrow>
                (case BinaryWriter_dtor sub_first h2 of
                   Inl e \<Rightarrow> Inl e
                 | Inr h3 \<Rightarrow>
                     (let object_size = (m_used_size h3 - object_size_start - 4) mod 4294967296;
                          h4 = h3\<lparr> m_data := store (m_data h3) object_size_start
                                                (u32_bytes object_size) \<rparr>
                      in write_object_entries fn (i + 1) element_num h4)))
      else Inr h)"
  by pat_completeness auto
termination
  by (relation "measure (\<lambda>(fn, i, element_num, h). element_num - i)") auto

declare write_object_entries.simps [simp del]

definition write_object_array :: "string \<Rightarrow> nat \<Rightarrow> SerializeObjArrayFn \<Rightarrow> SerializeObjFn" where
  "write_object_array name element_num fn first h =
     (let (h1, element_header_start) =
            reserve_bytes h (sizeof_ElementHeader + sizeof_ArrayHeader)
      in case write_object_entries fn 0 element_num h1 of
           Inl e \<Rightarrow> Inl e
         | Inr h2 \<Rightarrow>
             (case map_string_to_integer (m_strings h2) name of
                Inl e \<Rightarrow> Inl e
              | Inr (idx, strings) \<Rightarrow>
                  (let name_idx = idx mod 65536
                   in case nullify_elements_with_name name_idx (m_data h2) first
                             (element_header_start - first) of
                        Inl e \<Rightarrow> Inl e
                      | Inr mem \<Rightarrow>
                          (let h3 = h2\<lparr> m_strings := strings, m_data := mem \<rparr>
                           in if m_used_size h3 = element_header_start + sizeof_ElementHeader
                                   + sizeof_ArrayHeader + 4 * element_num
                              then Inr (h3\<lparr> m_used_size := element_header_start \<rparr>)
                              else if \<not> element_num < max_element_num then Inl AssertionFailed
                              else
                                (let element_header =
                                       \<lparr> m_type = ArrayT, m_name = name_idx,
                                         m_size = m_used_size h3 - element_header_start
                                                  - sizeof_ElementHeader \<rparr>;
                                     array_header =
                                       \<lparr> m_inner_type = ObjectT, m_element_num = element_num \<rparr>
                                 in Inr (h3\<lparr> m_data :=
                                        store (m_data h3) element_header_start
                                          (header_bytes element_header
                                           @ array_header_bytes array_header) \<rparr>))))))"

text \<open>
  A writer over a container, from its construction to its destruction: \<open>BinaryWriter
  writer{ holder }\<close>, the user's writes, and the destructor at the end of the scope.
\<close>

definition with_BinaryWriter :: "SerializeObjFn \<Rightarrow> BinaryDataHolder \<Rightarrow> error + BinaryDataHolder" where
  "with_BinaryWriter fn h =
     (let first = m_used_size h
      in case fn first h of
           Inl e \<Rightarrow> Inl e
         | Inr h1 \<Rightarrow> BinaryWriter_dtor first h1)"

text \<open>One write after another on the same writer.\<close>

definition then_write :: "SerializeObjFn \<Rightarrow> SerializeObjFn \<Rightarrow> SerializeObjFn" where
  "then_write f g = (\<lambda>first h. case f first h of Inl e \<Rightarrow> Inl e | Inr h1 \<Rightarrow> g first h1)"

definition no_writes :: SerializeObjFn where
  "no_writes = (\<lambda>first h. Inr h)"

section \<open>Binary reader\<close>

text \<open>
  \<open>BinaryReader\<close>: the string table and the range \<open>[m_data, m_data + m_data_size)\<close> it
  reads, as an offset into the buffer the pointer points into. The fields carry the prefix
  \<open>rd\<close> to keep them apart from those of the container.
\<close>

record BinaryReader =
  rd_strings :: "string list"
  rd_mem :: "byte list"
  rd_data :: nat
  rd_data_size :: nat

definition BinaryReader_of_holder :: "BinaryDataHolder \<Rightarrow> BinaryReader" where
  "BinaryReader_of_holder holder =
     \<lparr> rd_strings = m_strings holder, rd_mem = m_data holder, rd_data = 0,
       rd_data_size = m_used_size holder \<rparr>"

text \<open>\<open>find_element\<close>: the offset of the first element of the range whose name equals \<open>name\<close>.\<close>

function find_element_loop ::
  "string \<Rightarrow> string list \<Rightarrow> byte list \<Rightarrow> nat \<Rightarrow> nat \<Rightarrow> error + nat option" where
  "find_element_loop name strings mem data_it data_end =
     (if data_it < data_end then
        (if length mem < data_it + sizeof_ElementHeader then Inl OutOfBounds
         else
           (let element = header_at mem data_it
            in if length strings \<le> m_name element then Inl OutOfBounds
               else if ss_eq name (strings ! m_name element) then Inr (Some data_it)
               else find_element_loop name strings mem
                      (data_it + sizeof_ElementHeader + m_size element) data_end))
      else Inr None)"
  by pat_completeness auto
termination
  by (relation "measure (\<lambda>(name, strings, mem, data_it, data_end). data_end - data_it)")
     (auto simp: sizeof_ElementHeader_def)

declare find_element_loop.simps [simp del]

definition find_element :: "string \<Rightarrow> BinaryReader \<Rightarrow> error + nat option" where
  "find_element name rd =
     find_element_loop name (rd_strings rd) (rd_mem rd) (rd_data rd)
       (rd_data rd + rd_data_size rd)"

definition BinaryReader_has_member :: "string \<Rightarrow> BinaryReader \<Rightarrow> error + bool" where
  "BinaryReader_has_member name rd =
     (case find_element name rd of Inl e \<Rightarrow> Inl e | Inr r \<Rightarrow> Inr (r \<noteq> None))"

text \<open>\<open>BinaryReader::iterate_elements\<close> with a callback that always continues: the names it is given.\<close>

function iterate_names_loop :: "string list \<Rightarrow> byte list \<Rightarrow> nat \<Rightarrow> nat \<Rightarrow> error + string list" where
  "iterate_names_loop strings mem data_it data_end =
     (if data_it < data_end then
        (if length mem < data_it + sizeof_ElementHeader then Inl OutOfBounds
         else
           (let element = header_at mem data_it
            in if length strings \<le> m_name element then Inl OutOfBounds
               else
                 (case iterate_names_loop strings mem
                         (data_it + sizeof_ElementHeader + m_size element) data_end of
                    Inl e \<Rightarrow> Inl e
                  | Inr names \<Rightarrow> Inr (strings ! m_name element # names))))
      else Inr [])"
  by pat_completeness auto
termination
  by (relation "measure (\<lambda>(strings, mem, data_it, data_end). data_end - data_it)")
     (auto simp: sizeof_ElementHeader_def)

declare iterate_names_loop.simps [simp del]

definition iterate_names :: "BinaryReader \<Rightarrow> error + string list" where
  "iterate_names rd =
     iterate_names_loop (rd_strings rd) (rd_mem rd) (rd_data rd) (rd_data rd + rd_data_size rd)"

subsection \<open>Numeric values and their conversions\<close>

text \<open>
  An \<open>int\<close>, an \<open>unsigned\<close> and a \<open>float\<close> are 32 bits each. The casts between integers
  keep the bits. The casts that involve a \<open>float\<close> are those of the machine; they are
  parameters of the model. A \<open>float\<close> differs from zero unless all its bits but the sign
  are zero.
\<close>

record FloatCasts =
  int_of_float :: "32 word \<Rightarrow> 32 word"
  uint_of_float :: "32 word \<Rightarrow> 32 word"
  float_of_int :: "32 word \<Rightarrow> 32 word"
  float_of_uint :: "32 word \<Rightarrow> 32 word"

definition float_nonzero :: "32 word \<Rightarrow> bool" where
  "float_nonzero f = (f AND 0x7FFFFFFF \<noteq> 0)"

definition float_one :: "32 word" where
  "float_one = 0x3F800000"

datatype Numeric = NumNone | NumInt "32 word" | NumUInt "32 word" | NumFloat "32 word" | NumBool bool

text \<open>A slot of the caller: the variable a read is asked to fill, with its type.\<close>

datatype slot = SInt "32 word" | SUInt "32 word" | SFloat "32 word" | SBool bool

text \<open>
  \<open>Numeric::operator>>\<close>, one overload for each type of slot. The \<open>switch\<close> has no case
  for \<open>Type::None\<close>: the variable keeps its value.
\<close>

fun Numeric_into :: "FloatCasts \<Rightarrow> Numeric \<Rightarrow> slot \<Rightarrow> slot" where
  "Numeric_into fc (NumInt i) (SInt var) = SInt i"
| "Numeric_into fc (NumUInt u) (SInt var) = SInt u"
| "Numeric_into fc (NumFloat f) (SInt var) = SInt (int_of_float fc f)"
| "Numeric_into fc (NumBool b) (SInt var) = SInt (if b then 1 else 0)"
| "Numeric_into fc (NumInt i) (SUInt var) = SUInt i"
| "Numeric_into fc (NumUInt u) (SUInt var) = SUInt u"
| "Numeric_into fc (NumFloat f) (SUInt var) = SUInt (uint_of_float fc f)"
| "Numeric_into fc (NumBool b) (SUInt var) = SUInt (if b then 1 else 0)"
| "Numeric_into fc (NumInt i) (SFloat var) = SFloat (float_of_int fc i)"
| "Numeric_into fc (NumUInt u) (SFloat var) = SFloat (float_of_uint fc u)"
| "Numeric_into fc (NumFloat f) (SFloat var) = SFloat f"
| "Numeric_into fc (NumBool b) (SFloat var) = SFloat (if b then float_one else 0)"
| "Numeric_into fc (NumInt i) (SBool var) = SBool (i \<noteq> 0)"
| "Numeric_into fc (NumUInt u) (SBool var) = SBool (u \<noteq> 0)"
| "Numeric_into fc (NumFloat f) (SBool var) = SBool (float_nonzero f)"
| "Numeric_into fc (NumBool b) (SBool var) = SBool b"
| "Numeric_into fc NumNone var = var"

definition read_u32 :: "byte list \<Rightarrow> nat \<Rightarrow> 32 word" where
  "read_u32 mem off = of_nat (bytes_u32 (take 4 (drop off mem)))"

definition read_numeric :: "ElementType \<Rightarrow> byte list \<Rightarrow> nat \<Rightarrow> error + Numeric" where
  "read_numeric type mem data =
     (case type of
        IntT \<Rightarrow> if length mem < data + 4 then Inl OutOfBounds
                else Inr (NumInt (read_u32 mem data))
      | UIntT \<Rightarrow> if length mem < data + 4 then Inl OutOfBounds
                 else Inr (NumUInt (read_u32 mem data))
      | FloatT \<Rightarrow> if length mem < data + 4 then Inl OutOfBounds
                  else Inr (NumFloat (read_u32 mem data))
      | BoolT \<Rightarrow> if length mem < data + 1 then Inl OutOfBounds
                 else Inr (NumBool (unat (mem ! data) > 0))
      | _ \<Rightarrow> Inr NumNone)"

definition read_numeric_of_element :: "byte list \<Rightarrow> nat \<Rightarrow> error + Numeric" where
  "read_numeric_of_element mem element =
     read_numeric (m_type (header_at mem element)) mem (element + sizeof_ElementHeader)"

text \<open>\<open>read_numeric_element\<close>, for the slot type \<open>T\<close> of \<open>var\<close>: the four scalar reads.\<close>

definition read_numeric_element :: "FloatCasts \<Rightarrow> string \<Rightarrow> slot \<Rightarrow> BinaryReader \<Rightarrow> error + slot" where
  "read_numeric_element fc name var rd =
     (case find_element name rd of
        Inl e \<Rightarrow> Inl e
      | Inr None \<Rightarrow> Inr var
      | Inr (Some element) \<Rightarrow>
          (case read_numeric_of_element (rd_mem rd) element of
             Inl e \<Rightarrow> Inl e
           | Inr numeric \<Rightarrow> Inr (Numeric_into fc numeric var)))"


subsection \<open>Arrays of primitives\<close>
















section \<open>JSON binding\<close>

text \<open>
  Modelled from the spec: \<open>json::value\<close> of the JSON collaborator (\<open>asielorz-json/value.hh\<close>
  is not among the sources). The spec has an in-memory tree in which objects are
  string-keyed maps, arrays are ordered lists and scalars are tagged. A number is an
  integer or a real; a \<open>float\<close> of the caller is the real number it denotes. Looking up a
  key that an object does not have gives the null value.
\<close>

datatype json_value =
    JNull
  | JBool bool
  | JInteger int
  | JReal real
  | JString string
  | JArray "json_value list"
  | JObject "(string \<times> json_value) list"




fun is_bool :: "json_value \<Rightarrow> bool" where
  "is_bool (JBool _) = True"
| "is_bool _ = False"


fun is_numeric :: "json_value \<Rightarrow> bool" where
  "is_numeric (JInteger _) = True"
| "is_numeric (JReal _) = True"
| "is_numeric _ = False"

text \<open>
  Modelled from the spec: the accessors of \<open>json::value\<close>. Between integers and reals they
  are the numeric casts of the widening table: a real is truncated towards zero, an
  integer is taken to 32 bits.
\<close>

definition trunc_real :: "real \<Rightarrow> int" where
  "trunc_real r = (if 0 \<le> r then \<lfloor>r\<rfloor> else \<lceil>r\<rceil>)"

fun as_int :: "json_value \<Rightarrow> 32 word" where
  "as_int (JInteger i) = word_of_int i"
| "as_int (JReal r) = word_of_int (trunc_real r)"
| "as_int _ = 0"

fun as_uint :: "json_value \<Rightarrow> 32 word" where
  "as_uint (JInteger i) = word_of_int i"
| "as_uint (JReal r) = word_of_int (trunc_real r)"
| "as_uint _ = 0"

fun as_float :: "json_value \<Rightarrow> real" where
  "as_float (JInteger i) = of_int i"
| "as_float (JReal r) = r"
| "as_float _ = 0"

fun as_bool :: "json_value \<Rightarrow> bool" where
  "as_bool (JBool b) = b"
| "as_bool _ = False"


text \<open>
  A name as the JSON binding sees it: the bytes and the \<open>m_static\<close> flag. A static name
  is the key with its length; any other name is the key as a C string.
\<close>

record SerializerString =
  m_string :: string
  m_static :: bool

definition json_key :: "SerializerString \<Rightarrow> string" where
  "json_key name = (if m_static name then m_string name else c_str (m_string name))"

text \<open>Modelled from the spec: \<open>operator[]\<close> of a JSON object, reading (the null value when
  the key is missing) and writing (the member is replaced or created).\<close>

definition object_get :: "(string \<times> json_value) list \<Rightarrow> string \<Rightarrow> json_value" where
  "object_get members key = (case map_of members key of None \<Rightarrow> JNull | Some v \<Rightarrow> v)"

fun object_set :: "(string \<times> json_value) list \<Rightarrow> string \<Rightarrow> json_value \<Rightarrow> (string \<times> json_value) list" where
  "object_set [] key v = [(key, v)]"
| "object_set ((k, w) # members) key v =
     (if k = key then (k, v) # members else (k, w) # object_set members key v)"

text \<open>\<open>access_child\<close> on a constant value, as the reader calls it.\<close>

definition access_child :: "SerializerString \<Rightarrow> json_value \<Rightarrow> json_value" where
  "access_child name v =
     (case v of JObject members \<Rightarrow> object_get members (json_key name) | _ \<Rightarrow> JNull)"

text \<open>
  \<open>access_child\<close> on a mutable value followed by an assignment to the reference it
  returns: a value that is not an object becomes an empty object first.
\<close>

definition assign_child :: "SerializerString \<Rightarrow> json_value \<Rightarrow> json_value \<Rightarrow> json_value" where
  "assign_child name new_value v =
     JObject (object_set (case v of JObject members \<Rightarrow> members | _ \<Rightarrow> []) (json_key name)
                new_value)"


subsection \<open>JSON writer\<close>

text \<open>
  A \<open>JsonWriter\<close> holds a reference to a value; an operation takes that value and returns
  it as the operation leaves it. \<open>m_value\<close> is a reference to a value that is not
  constant, so \<open>has_member\<close> calls the mutable \<open>access_child\<close>.
\<close>

type_synonym JsonObjFn = "json_value \<Rightarrow> json_value"


definition JsonWriter_serialize_int :: "SerializerString \<Rightarrow> 32 word \<Rightarrow> JsonObjFn" where
  "JsonWriter_serialize_int name var v = assign_child name (JInteger (sint var)) v"

definition JsonWriter_serialize_uint :: "SerializerString \<Rightarrow> 32 word \<Rightarrow> JsonObjFn" where
  "JsonWriter_serialize_uint name var v = assign_child name (JInteger (uint var)) v"

definition JsonWriter_serialize_float :: "SerializerString \<Rightarrow> real \<Rightarrow> JsonObjFn" where
  "JsonWriter_serialize_float name var v = assign_child name (JReal var) v"

definition JsonWriter_serialize_bool :: "SerializerString \<Rightarrow> bool \<Rightarrow> JsonObjFn" where
  "JsonWriter_serialize_bool name var v = assign_child name (JBool var) v"

text \<open>The string write builds \<open>std::string{ str }\<close>: the bytes up to the first zero.\<close>

definition JsonWriter_serialize_string :: "SerializerString \<Rightarrow> string \<Rightarrow> JsonObjFn" where
  "JsonWriter_serialize_string name str v = assign_child name (JString (c_str str)) v"


subsection \<open>JSON reader\<close>

text \<open>A slot of the caller on the JSON side; a \<open>float\<close> is the real it denotes.\<close>

datatype jslot = JSInt "32 word" | JSUInt "32 word" | JSFloat real | JSBool bool


text \<open>The four scalar reads of \<open>JsonReader\<close>, chosen by the type of the slot.\<close>

fun JsonReader_serialize :: "SerializerString \<Rightarrow> jslot \<Rightarrow> json_value \<Rightarrow> jslot" where
  "JsonReader_serialize name (JSInt var) v =
     (let value = access_child name v
      in if is_numeric value then JSInt (as_int value)
         else if is_bool value then JSInt (if as_bool value then 1 else 0)
         else JSInt var)"
| "JsonReader_serialize name (JSUInt var) v =
     (let value = access_child name v
      in if is_numeric value then JSUInt (as_uint value)
         else if is_bool value then JSUInt (if as_bool value then 1 else 0)
         else JSUInt var)"
| "JsonReader_serialize name (JSFloat var) v =
     (let value = access_child name v
      in if is_numeric value then JSFloat (as_float value)
         else if is_bool value then JSFloat (if as_bool value then 1 else 0)
         else JSFloat var)"
| "JsonReader_serialize name (JSBool var) v =
     (let value = access_child name v
      in if is_bool value then JSBool (as_bool value)
         else if is_numeric value then JSBool (as_float value > 0)
         else JSBool var)"





section \<open>Well-formed containers\<close>






section \<open>Sample programs\<close>

text \<open>
  \<open>serialize( w, "a", 1 ); serialize_object( w, "a", [](s){ serialize( s, "x", 1 ); } );\<close>
\<close>

definition override_by_object_writes :: SerializeObjFn where
  "override_by_object_writes =
     then_write (serialize_int ''a'' 1) (serialize_object ''a'' (serialize_int ''x'' 1))"

text \<open>
  \<open>serialize( w, "a", 1 ); serialize_object( w, "b", [](s){ serialize( s, "x", 1 ); } );
  serialize( w, "a", 2 );\<close>
\<close>

definition overlap_writes :: SerializeObjFn where
  "overlap_writes =
     then_write (serialize_int ''a'' 1)
       (then_write (serialize_object ''b'' (serialize_int ''x'' 1)) (serialize_int ''a'' 2))"


section \<open>Header bytes\<close>

lemma type_tag_less: "type_tag t < 8"
  by (cases t) simp_all

lemma tag_type_tag: "tag_type (type_tag t) = t"
  by (cases t) (simp_all add: tag_type_def)

lemma unat_byte_of: "unat (byte_of n) = n mod 256"
  by (simp add: byte_of_def unat_of_nat)

lemma bytes_u32_u32_bytes: "bytes_u32 (u32_bytes n) = n mod 4294967296"
proof -
  have a: "n mod 65536 = 256 * (n div 256 mod 256) + n mod 256"
    using mod_mult2_eq[of n 256 256] by simp
  have b: "n mod 16777216 = 65536 * (n div 65536 mod 256) + n mod 65536"
    using mod_mult2_eq[of n 65536 256] by simp
  have c: "n mod 4294967296 = 16777216 * (n div 16777216 mod 256) + n mod 16777216"
    using mod_mult2_eq[of n 16777216 256] by simp
  show ?thesis
    unfolding bytes_u32_def u32_bytes_def by (simp add: unat_byte_of a b c)
qed



lemma bytes_header_header_bytes:
  "bytes_header (header_bytes h) =
     \<lparr> m_type = m_type h, m_name = m_name h mod 8192, m_size = m_size h mod 4294967296 \<rparr>"
proof -
  have t: "type_tag (m_type h) < 8" by (rule type_tag_less)
  have a: "(type_tag (m_type h) + 8 * (m_name h mod 32)) mod 256
             = type_tag (m_type h) + 8 * (m_name h mod 32)"
    using t by simp
  have b: "type_tag (m_type h) mod 8 = type_tag (m_type h)"
    using t by simp
  have c: "(type_tag (m_type h) + 8 * (m_name h mod 32)) div 8 = m_name h mod 32"
    using t by simp
  have d: "m_name h mod 32 + 32 * (m_name h div 32 mod 256) = m_name h mod 8192"
    using mod_mult2_eq[of "m_name h" 32 256] by simp
  show ?thesis
    by (simp add: bytes_header_def header_bytes_def unat_byte_of a b c d tag_type_tag
        bytes_u32_u32_bytes)
qed

lemma name_field_fits:
  "n \<le> max_name_idx \<Longrightarrow>
   m_name (bytes_header (header_bytes \<lparr> m_type = t, m_name = n, m_size = sz \<rparr>)) = n"
  by (simp add: bytes_header_header_bytes max_name_idx_def)

section \<open>Growth of the buffer\<close>



lemma grow_size_first: "b \<le> c_writer_initial_size \<Longrightarrow> grow_size 0 b = c_writer_initial_size"
  by (subst grow_size.simps) (simp add: Let_def)








section \<open>String interning\<close>

lemma find_index_of_Some:
  "find_index_of x xs = Some i \<Longrightarrow> i < length xs \<and> xs ! i = x"
  by (induction xs arbitrary: i) (auto split: if_splits)

lemma find_index_of_None: "(find_index_of x xs = None) = (x \<notin> set xs)"
  by (induction xs) auto

lemma map_string_to_integer_ok:
  assumes "distinct strings" "card (insert s (set strings)) \<le> 8192"
  shows "\<exists>idx strings'. map_string_to_integer strings s = Inr (idx, strings')
           \<and> idx < length strings' \<and> strings' ! idx = s \<and> distinct strings'
           \<and> set strings' = insert s (set strings) \<and> (\<exists>ext. strings' = strings @ ext)"
proof (cases "find_index_of s strings")
  case None
  then have notin: "s \<notin> set strings" by (simp add: find_index_of_None)
  then have "card (insert s (set strings)) = Suc (length strings)"
    using assms(1) by (simp add: distinct_card)
  then have "length strings \<le> max_name_idx" using assms(2) by (simp add: max_name_idx_def)
  then show ?thesis using None notin assms(1)
    by (auto simp: map_string_to_integer_def Let_def nth_append)
next
  case (Some i)
  from find_index_of_Some[OF Some] show ?thesis using Some assms(1)
    by (auto simp: map_string_to_integer_def insert_absorb)
qed

lemma intern_all_ok:
  assumes "distinct strings" "card (set strings \<union> set ss) \<le> 8192"
  shows "\<exists>idxs strings'. intern_all strings ss = Inr (idxs, strings')
           \<and> length idxs = length ss \<and> distinct strings'
           \<and> set strings' = set strings \<union> set ss \<and> (\<exists>ext. strings' = strings @ ext)
           \<and> (\<forall>i<length ss. idxs ! i < length strings' \<and> strings' ! (idxs ! i) = ss ! i)"
  using assms
proof (induction ss arbitrary: strings)
  case Nil
  then show ?case by simp
next
  case (Cons s ss)
  have c1: "card (insert s (set strings)) \<le> 8192"
  proof -
    have "card (insert s (set strings)) \<le> card (set strings \<union> set (s # ss))"
      by (rule card_mono) auto
    then show ?thesis using Cons.prems(2) by simp
  qed
  from map_string_to_integer_ok[OF Cons.prems(1) c1]
  obtain idx strings1 ext1 where m: "map_string_to_integer strings s = Inr (idx, strings1)"
    and idx: "idx < length strings1" "strings1 ! idx = s" and d1: "distinct strings1"
    and s1: "set strings1 = insert s (set strings)" and e1: "strings1 = strings @ ext1"
    by blast
  have c2: "card (set strings1 \<union> set ss) \<le> 8192"
    using Cons.prems(2) s1 by (simp add: Un_commute insert_commute)
  from Cons.IH[OF d1 c2]
  obtain idxs strings2 ext2 where r: "intern_all strings1 ss = Inr (idxs, strings2)"
    and len: "length idxs = length ss" and d2: "distinct strings2"
    and s2: "set strings2 = set strings1 \<union> set ss" and e2: "strings2 = strings1 @ ext2"
    and nth: "\<forall>i<length ss. idxs ! i < length strings2 \<and> strings2 ! (idxs ! i) = ss ! i"
    by blast
  have "\<forall>i<length (s # ss). (idx # idxs) ! i < length strings2
           \<and> strings2 ! ((idx # idxs) ! i) = (s # ss) ! i"
  proof (intro allI impI)
    fix i assume "i < length (s # ss)"
    then show "(idx # idxs) ! i < length strings2 \<and> strings2 ! ((idx # idxs) ! i) = (s # ss) ! i"
      using idx nth e2 by (cases i) (auto simp: nth_append)
  qed
  then show ?case using m r len d2 s2 s1 e1 e2 by auto
qed

text \<open>
  C9. In a container whose table holds distinct strings, interning any sequence of strings
  that keeps the table at 8192 distinct strings or fewer never fails the over-limit
  assertion; every index returned is at most 8191 and survives the 13-bit name field of an
  element header unchanged; and two calls return the same index exactly when they were
  given the same string.
\<close>

theorem interning_within_limit:
  assumes "distinct strings" "card (set strings \<union> set ss) \<le> 8192"
  shows "\<exists>idxs strings'. intern_all strings ss = Inr (idxs, strings')
           \<and> length idxs = length ss
           \<and> (\<forall>i<length ss. idxs ! i \<le> max_name_idx
                 \<and> m_name (bytes_header (header_bytes
                      \<lparr> m_type = t, m_name = idxs ! i, m_size = sz \<rparr>)) = idxs ! i)
           \<and> (\<forall>i<length ss. \<forall>j<length ss. (idxs ! i = idxs ! j) = (ss ! i = ss ! j))"
proof -
  from intern_all_ok[OF assms]
  obtain idxs strings' where r: "intern_all strings ss = Inr (idxs, strings')"
    and len: "length idxs = length ss" and d: "distinct strings'"
    and s: "set strings' = set strings \<union> set ss"
    and nth: "\<forall>i<length ss. idxs ! i < length strings' \<and> strings' ! (idxs ! i) = ss ! i"
    by blast
  have "length strings' = card (set strings')" using d by (simp add: distinct_card)
  then have bound: "length strings' \<le> 8192" using assms(2) s by simp
  have a: "\<forall>i<length ss. idxs ! i \<le> max_name_idx"
    using nth bound by (fastforce simp: max_name_idx_def)
  have b: "\<forall>i<length ss. \<forall>j<length ss. (idxs ! i = idxs ! j) = (ss ! i = ss ! j)"
  proof (intro allI impI)
    fix i j assume "i < length ss" "j < length ss"
    then show "(idxs ! i = idxs ! j) = (ss ! i = ss ! j)"
      using nth d by (metis nth_eq_iff_index_eq)
  qed
  show ?thesis using r len a b name_field_fits by blast
qed

theorem interning_within_limit_witness:
  "distinct ([] :: string list)
   \<and> card (set [] \<union> set [''a'', ''b'', ''a'']) \<le> 8192
   \<and> intern_all [] [''a'', ''b'', ''a''] = Inr ([0, 1, 0], [''a'', ''b''])"
proof -
  have d: "distinct ([] :: string list)" by simp
  have c: "card (set [] \<union> set [''a'', ''b'', ''a'']) \<le> 8192"
    using card_length[of "[''a'', ''b'', ''a'']"] by simp
  have e: "intern_all [] [''a'', ''b'', ''a''] = Inr ([0, 1, 0], [''a'', ''b''])"
    by (simp add: map_string_to_integer_def max_name_idx_def)
  from interning_within_limit[OF d c] d c e show ?thesis by blast
qed

section \<open>Reading scalars\<close>


lemma Numeric_into_None: "Numeric_into fc NumNone var = var"
  by simp


lemma object_get_absent: "key \<notin> fst ` set members \<Longrightarrow> object_get members key = JNull"
  by (simp add: object_get_def map_of_eq_None_iff[THEN iffD2])



text \<open>
  C4 on the code. The JSON reader fills a \<open>bool\<close> slot from a number with
  \<open>as_float() > 0\<close>: the stored integer -1 reads as \<open>false\<close>. The binary reader compares
  with zero and reads the same stored value as \<open>true\<close>.
\<close>

theorem json_negative_number_reads_false:
  "JsonReader_serialize \<lparr> m_string = ''i'', m_static = True \<rparr> (JSBool True)
     (JsonWriter_serialize_int \<lparr> m_string = ''i'', m_static = True \<rparr> (- 1) JNull)
   = JSBool False
   \<and> Numeric_into sample_casts (NumInt (- 1)) (SBool False) = SBool True"
  by (simp add: JsonWriter_serialize_int_def assign_child_def access_child_def json_key_def
      object_get_def)


text \<open>
  A small finalized container for the witnesses: the object \<open>o\<close> with the member \<open>x = 1\<close>,
  the integer \<open>n = 7\<close> and the string \<open>s = "n"\<close>.
\<close>

definition sample_reader :: BinaryReader where
  "sample_reader =
     \<lparr> rd_strings = [''o'', ''x'', ''n'', ''s''],
       rd_mem = [5, 0, 10, 0, 0, 0, 8, 0, 4, 0, 0, 0, 1, 0, 0, 0,
                 16, 0, 4, 0, 0, 0, 7, 0, 0, 0,
                 28, 0, 4, 0, 0, 0, 2, 0, 0, 0],
       rd_data = 0, rd_data_size = 36 \<rparr>"

text \<open>Casts for the examples, none of which converts a \<open>float\<close>.\<close>

definition sample_casts :: FloatCasts where
  "sample_casts = \<lparr> int_of_float = (\<lambda>f. 0), uint_of_float = (\<lambda>f. 0),
                     float_of_int = (\<lambda>i. 0), float_of_uint = (\<lambda>u. 0) \<rparr>"


lemmas reader_eval =
  sample_reader_def iterate_names_def iterate_names_loop.simps find_element_def
  find_element_loop.simps header_at_def bytes_header_def bytes_u32_def tag_type_def
  sizeof_ElementHeader_def sizeof_ArrayHeader_def ss_eq_def c_str_def Let_def
  read_numeric_of_element_def read_numeric_def read_u32_def










section \<open>Reading a scalar as an array\<close>



section \<open>Appends that fit, and the first allocation\<close>

lemma write_bytes_fit:
  "m_used_size h + length bs \<le> m_data_size h \<Longrightarrow>
   write_bytes h bs = h\<lparr> m_data := store (m_data h) (m_used_size h) bs,
                          m_used_size := m_used_size h + length bs \<rparr>"
  by (simp add: write_bytes_def)

lemma reserve_bytes_fit:
  "m_used_size h + n \<le> m_data_size h \<Longrightarrow>
   reserve_bytes h n = (h\<lparr> m_used_size := m_used_size h + n \<rparr>, m_used_size h)"
  by (simp add: reserve_bytes_def)

lemma write_bytes_first:
  "m_data_size h = 0 \<Longrightarrow> m_used_size h = 0 \<Longrightarrow> 0 < length bs \<Longrightarrow> length bs \<le> 4098 \<Longrightarrow>
   write_bytes h bs = h\<lparr> m_data := bs @ replicate (4098 - length bs) 0, m_data_size := 4098,
                          m_used_size := length bs \<rparr>"
  using grow_size_first[of "length bs"]
  by (simp add: write_bytes_def grow_def store_def c_writer_initial_size_def)

lemma reserve_bytes_first:
  "m_data_size h = 0 \<Longrightarrow> m_used_size h = 0 \<Longrightarrow> 0 < n \<Longrightarrow> n \<le> 4098 \<Longrightarrow>
   reserve_bytes h n = (h\<lparr> m_data := replicate 4098 0, m_data_size := 4098,
                            m_used_size := n \<rparr>, 0)"
  using grow_size_first[of n]
  by (simp add: reserve_bytes_def grow_def c_writer_initial_size_def)

text \<open>The rules that run a writer on a concrete container.\<close>

lemmas writer_eval =
  with_BinaryWriter_def then_write_def no_writes_def
  serialize_int_def serialize_object_def write_object_array_def write_object_entries.simps
  intern_and_nullify_def map_string_to_integer_def nullify_elements_with_name_def
  nullify_loop.simps write_element_def write_bytes_fit write_bytes_first reserve_bytes_fit
  reserve_bytes_first store_def header_bytes_def u32_bytes_def byte_of_def
  BinaryWriter_dtor_def remove_null_elements_def remove_null_loop.simps header_at_def
  bytes_header_def bytes_u32_def tag_type_def sizeof_ElementHeader_def sizeof_ArrayHeader_def
  copy_element_def copy_words.simps copy_last_bytes.simps max_name_idx_def empty_holder_def
  BinaryWriter_has_member_def has_member_loop.simps Let_def

section \<open>Override\<close>

text \<open>
  C2 on the code. \<open>serialize_object\<close> does not nullify the elements that carry its name.
  After an integer \<open>a\<close> and an object \<open>a\<close> are written in one scope, the finalized stream
  holds two elements named \<open>a\<close>, and a read of \<open>a\<close> finds the integer written first.
\<close>

theorem object_write_does_not_override:
  "with_BinaryWriter override_by_object_writes empty_holder
     = Inr \<lparr> m_strings = [''a'', ''x''],
             m_data = [0, 0, 4, 0, 0, 0, 1, 0, 0, 0,
                       5, 0, 10, 0, 0, 0, 8, 0, 4, 0, 0, 0, 1, 0, 0, 0] @ replicate 4072 0,
             m_data_size = 4098, m_used_size = 26 \<rparr>
   \<and> iterate_names (BinaryReader_of_holder
         \<lparr> m_strings = [''a'', ''x''],
           m_data = [0, 0, 4, 0, 0, 0, 1, 0, 0, 0,
                     5, 0, 10, 0, 0, 0, 8, 0, 4, 0, 0, 0, 1, 0, 0, 0] @ replicate 4072 0,
           m_data_size = 4098, m_used_size = 26 \<rparr>) = Inr [''a'', ''a'']
   \<and> read_numeric_element sample_casts ''a'' (SInt 0) (BinaryReader_of_holder
         \<lparr> m_strings = [''a'', ''x''],
           m_data = [0, 0, 4, 0, 0, 0, 1, 0, 0, 0,
                     5, 0, 10, 0, 0, 0, 8, 0, 4, 0, 0, 0, 1, 0, 0, 0] @ replicate 4072 0,
           m_data_size = 4098, m_used_size = 26 \<rparr>) = Inr (SInt 1)"
proof (intro conjI)
  show "with_BinaryWriter override_by_object_writes empty_holder
     = Inr \<lparr> m_strings = [''a'', ''x''],
             m_data = [0, 0, 4, 0, 0, 0, 1, 0, 0, 0,
                       5, 0, 10, 0, 0, 0, 8, 0, 4, 0, 0, 0, 1, 0, 0, 0] @ replicate 4072 0,
             m_data_size = 4098, m_used_size = 26 \<rparr>"
    by (simp add: override_by_object_writes_def writer_eval)
  show "iterate_names (BinaryReader_of_holder
         \<lparr> m_strings = [''a'', ''x''],
           m_data = [0, 0, 4, 0, 0, 0, 1, 0, 0, 0,
                     5, 0, 10, 0, 0, 0, 8, 0, 4, 0, 0, 0, 1, 0, 0, 0] @ replicate 4072 0,
           m_data_size = 4098, m_used_size = 26 \<rparr>) = Inr [''a'', ''a'']"
    by (simp add: BinaryReader_of_holder_def reader_eval)
  show "read_numeric_element sample_casts ''a'' (SInt 0) (BinaryReader_of_holder
         \<lparr> m_strings = [''a'', ''x''],
           m_data = [0, 0, 4, 0, 0, 0, 1, 0, 0, 0,
                     5, 0, 10, 0, 0, 0, 8, 0, 4, 0, 0, 0, 1, 0, 0, 0] @ replicate 4072 0,
           m_data_size = 4098, m_used_size = 26 \<rparr>) = Inr (SInt 1)"
    by (simp add: BinaryReader_of_holder_def read_numeric_element_def reader_eval)
qed

section \<open>Null-compaction\<close>

text \<open>
  C3 on the code. The three writes of \<open>overlap_writes\<close> leave a nullified \<open>a\<close> (10 bytes),
  the object \<open>b\<close> (16 bytes) and the new \<open>a\<close> (10 bytes). The object is moved down by 10
  bytes, so source and destination overlap: the word loop copies its 16 bytes, and the
  byte loop, which starts at \<open>size_to_copy - last_written_byte = 0\<close>, copies them again
  from a source the word loop has already overwritten. The finalized stream starts with
  the bytes \<open>0, 0, 1, 0, 0, 0\<close> where the header of \<open>b\<close> (\<open>21, 0, 10, 0, 0, 0\<close>) belongs.
\<close>

theorem compaction_corrupts_overlapping_element:
  "overlap_writes 0 empty_holder
     = Inr \<lparr> m_strings = [''a'', ''x'', ''b''],
             m_data = [7, 0, 4, 0, 0, 0, 1, 0, 0, 0,
                       21, 0, 10, 0, 0, 0, 8, 0, 4, 0, 0, 0, 1, 0, 0, 0,
                       0, 0, 4, 0, 0, 0, 2, 0, 0, 0] @ replicate 4062 0,
             m_data_size = 4098, m_used_size = 36 \<rparr>
   \<and> non_null_elements
         ([7, 0, 4, 0, 0, 0, 1, 0, 0, 0,
           21, 0, 10, 0, 0, 0, 8, 0, 4, 0, 0, 0, 1, 0, 0, 0,
           0, 0, 4, 0, 0, 0, 2, 0, 0, 0] @ replicate 4062 0) 0 36
       = [21, 0, 10, 0, 0, 0, 8, 0, 4, 0, 0, 0, 1, 0, 0, 0, 0, 0, 4, 0, 0, 0, 2, 0, 0, 0]
   \<and> remove_null_elements
         ([7, 0, 4, 0, 0, 0, 1, 0, 0, 0,
           21, 0, 10, 0, 0, 0, 8, 0, 4, 0, 0, 0, 1, 0, 0, 0,
           0, 0, 4, 0, 0, 0, 2, 0, 0, 0] @ replicate 4062 0) 0 36
       = Inr ([0, 0, 1, 0, 0, 0, 8, 0, 4, 0, 0, 0, 1, 0, 0, 0, 0, 0, 4, 0, 0, 0, 2, 0, 0, 0,
               0, 0, 4, 0, 0, 0, 2, 0, 0, 0] @ replicate 4062 0, 26)
   \<and> with_BinaryWriter overlap_writes empty_holder
       = Inr \<lparr> m_strings = [''a'', ''x'', ''b''],
               m_data = [0, 0, 1, 0, 0, 0, 8, 0, 4, 0, 0, 0, 1, 0, 0, 0,
                         0, 0, 4, 0, 0, 0, 2, 0, 0, 0,
                         0, 0, 4, 0, 0, 0, 2, 0, 0, 0] @ replicate 4062 0,
               m_data_size = 4098, m_used_size = 26 \<rparr>"
proof (intro conjI)
  show w: "overlap_writes 0 empty_holder
     = Inr \<lparr> m_strings = [''a'', ''x'', ''b''],
             m_data = [7, 0, 4, 0, 0, 0, 1, 0, 0, 0,
                       21, 0, 10, 0, 0, 0, 8, 0, 4, 0, 0, 0, 1, 0, 0, 0,
                       0, 0, 4, 0, 0, 0, 2, 0, 0, 0] @ replicate 4062 0,
             m_data_size = 4098, m_used_size = 36 \<rparr>"
    by (simp add: overlap_writes_def writer_eval)
  show "non_null_elements
         ([7, 0, 4, 0, 0, 0, 1, 0, 0, 0,
           21, 0, 10, 0, 0, 0, 8, 0, 4, 0, 0, 0, 1, 0, 0, 0,
           0, 0, 4, 0, 0, 0, 2, 0, 0, 0] @ replicate 4062 0) 0 36
       = [21, 0, 10, 0, 0, 0, 8, 0, 4, 0, 0, 0, 1, 0, 0, 0, 0, 0, 4, 0, 0, 0, 2, 0, 0, 0]"
    by (simp add: non_null_elements.simps writer_eval)
  show r: "remove_null_elements
         ([7, 0, 4, 0, 0, 0, 1, 0, 0, 0,
           21, 0, 10, 0, 0, 0, 8, 0, 4, 0, 0, 0, 1, 0, 0, 0,
           0, 0, 4, 0, 0, 0, 2, 0, 0, 0] @ replicate 4062 0) 0 36
       = Inr ([0, 0, 1, 0, 0, 0, 8, 0, 4, 0, 0, 0, 1, 0, 0, 0, 0, 0, 4, 0, 0, 0, 2, 0, 0, 0,
               0, 0, 4, 0, 0, 0, 2, 0, 0, 0] @ replicate 4062 0, 26)"
    by (simp add: writer_eval)
  show "with_BinaryWriter overlap_writes empty_holder
       = Inr \<lparr> m_strings = [''a'', ''x'', ''b''],
               m_data = [0, 0, 1, 0, 0, 0, 8, 0, 4, 0, 0, 0, 1, 0, 0, 0,
                         0, 0, 4, 0, 0, 0, 2, 0, 0, 0,
                         0, 0, 4, 0, 0, 0, 2, 0, 0, 0] @ replicate 4062 0,
               m_data_size = 4098, m_used_size = 26 \<rparr>"
    using w r by (simp add: with_BinaryWriter_def BinaryWriter_dtor_def empty_holder_def)
qed

section \<open>Stores, prefixes and scopes\<close>



























section \<open>Object arrays without entries\<close>



















end
